theory Spec2Isabelle
  imports Complex_Main "HOL-Library.Word"
begin

unbundle bit_operations_syntax

section \<open>Values of the host engine\<close>

text \<open>
  The host engine's \<open>vec3\<close> and \<open>quat\<close> are built-in value classes. Their components
  are modelled as real numbers (exact arithmetic); a quaternion is kept as its four
  components \<open>w + xi + yj + zk\<close>.
\<close>

datatype vec3 = Vec3 (vx: real) (vy: real) (vz: real)

datatype quat = Quat (qw: real) (qx: real) (qy: real) (qz: real)

section \<open>The Interactor snapshot\<close>

text \<open>
  Modelled from the spec: the \<open>Interactor\<close> interface and its enums are declared in
  Core/Interactor/Interactor, outside the sources at hand. An interactor is read as a
  snapshot of the fields the two components use: an optional field is null when it cannot
  be resolved, and the method \<open>isActive()\<close> is read as a field.
  \<open>InteractorInputType\<close> is a bitmask enum (empty value \<open>None\<close>, one bit per input
  source) that the source combines with JavaScript's \<open>|=\<close> and \<open>&= ~\<close>, which work on
  32-bit integers. Of \<open>TargetingMode\<close> and \<open>InteractorTriggerType\<close> the components only
  compare values.
\<close>

type_synonym interactorInputType = "32 word"

definition InputType_None :: interactorInputType where
  "InputType_None = 0"

definition InputType_LeftHand :: interactorInputType where
  "InputType_LeftHand = 1"

definition InputType_RightHand :: interactorInputType where
  "InputType_RightHand = 2"

definition InputType_Mobile :: interactorInputType where
  "InputType_Mobile = 4"

datatype targetingMode = TargetingNone | Direct | Indirect

datatype interactorTriggerType = TriggerNone | TriggerPinch | TriggerPoke

text \<open>Objects are compared by reference in the source; a reference is a number here.\<close>

type_synonym interactableRef = nat

record interactor =
  inputType :: interactorInputType
  activeTargetingMode :: targetingMode
  startPoint :: "vec3 option"
  orientation :: "quat option"
  direction :: "vec3 option"
  distanceToTarget :: "real option"
  maxRaycastDistance :: real
  currentTrigger :: interactorTriggerType
  currentInteractable :: "interactableRef option"
  isActive :: bool
  currentDragVector :: "vec3 option"
  previousDragVector :: "vec3 option"
  planecastDragVector :: "vec3 option"
  touchpadDragVector :: "vec3 option"

section \<open>Interactable: the hover, trigger and drag state machine\<close>

text \<open>
  \<open>InteractableEventArgs\<close> is the interactor event without its \<open>interactable\<close> field;
  every handler completes it with \<open>interactable: this\<close> before publishing. Of the
  arguments only the interactor is read.
\<close>

record interactableEventArgs =
  argInteractor :: interactor

text \<open>
  Each published event is recorded with its payload, in the order of the \<open>invoke\<close> calls;
  the verbose log lines between them are recorded as well. A drag event carries
  \<open>dragVector\<close> and \<open>planecastDragVector\<close>.
\<close>

datatype interactableEvent =
    OnHoverEnter interactableEventArgs
  | OnInteractorHoverEnter interactableEventArgs
  | OnHoverUpdate interactableEventArgs
  | OnHoverExit interactableEventArgs
  | OnInteractorHoverExit interactableEventArgs
  | OnTriggerStart interactableEventArgs
  | OnInteractorTriggerStart interactableEventArgs
  | OnTriggerUpdate interactableEventArgs
  | OnTriggerEnd interactableEventArgs
  | OnInteractorTriggerEnd interactableEventArgs
  | OnTriggerCanceled interactableEventArgs
  | OnDragStart interactableEventArgs vec3 "vec3 option"
  | OnDragUpdate interactableEventArgs vec3 "vec3 option"
  | OnDragEnd interactableEventArgs vec3 "vec3 option"
  | LogV string

record interactable =
  objectRef :: interactableRef
  hoveringInteractor :: interactorInputType
  triggeringInteractor :: interactorInputType

definition hoverEnter ::
  "interactableEventArgs \<Rightarrow> interactable \<Rightarrow> interactable \<times> interactableEvent list" where
  "hoverEnter eventArgs this =
     (let aggregate =
            (if hoveringInteractor this = InputType_None
             then [OnHoverEnter eventArgs, LogV ''InteractionEvent : On Hover Enter Event'']
             else []);
          this' = this\<lparr>hoveringInteractor :=
                     hoveringInteractor this OR inputType (argInteractor eventArgs)\<rparr>
      in (this', aggregate @
            [OnInteractorHoverEnter eventArgs,
             LogV ''InteractionEvent : On Interactor Hover Enter Event'']))"


definition hoverExit ::
  "interactableEventArgs \<Rightarrow> interactable \<Rightarrow> interactable \<times> interactableEvent list" where
  "hoverExit eventArgs this =
     (let this' = this\<lparr>hoveringInteractor :=
                     hoveringInteractor this AND NOT (inputType (argInteractor eventArgs))\<rparr>;
          aggregate =
            (if hoveringInteractor this' = InputType_None
             then [OnHoverExit eventArgs, LogV ''InteractionEvent : On Hover Exit Event'']
             else [])
      in (this',
          [OnInteractorHoverExit eventArgs,
           LogV ''InteractionEvent : On Interactor Hover Exit Event''] @ aggregate))"


definition dragEnd :: "interactableEventArgs \<Rightarrow> interactableEvent list" where
  "dragEnd eventArgs =
     (case previousDragVector (argInteractor eventArgs) of
        None \<Rightarrow> []
      | Some previousDrag \<Rightarrow>
          [OnDragEnd eventArgs previousDrag (planecastDragVector (argInteractor eventArgs)),
           LogV ''InteractionEvent : On Drag End Event''])"

definition triggerStart ::
  "interactableEventArgs \<Rightarrow> interactable \<Rightarrow> interactable \<times> interactableEvent list" where
  "triggerStart eventArgs this =
     (let aggregate =
            (if triggeringInteractor this = InputType_None
             then [OnTriggerStart eventArgs, LogV ''InteractionEvent : On Trigger Start Event'']
             else []);
          this' = this\<lparr>triggeringInteractor :=
                     triggeringInteractor this OR inputType (argInteractor eventArgs)\<rparr>
      in (this', aggregate @
            [OnInteractorTriggerStart eventArgs,
             LogV ''InteractionEvent : On Interactor Trigger Start Event'']))"


definition triggerEnd ::
  "interactableEventArgs \<Rightarrow> interactable \<Rightarrow> interactable \<times> interactableEvent list" where
  "triggerEnd eventArgs this =
     (let this' = this\<lparr>triggeringInteractor :=
                     triggeringInteractor this AND NOT (inputType (argInteractor eventArgs))\<rparr>;
          aggregate =
            (if triggeringInteractor this' = InputType_None
             then [OnTriggerEnd eventArgs, LogV ''InteractionEvent : On Trigger End Event'']
             else [])
      in (this',
          [OnInteractorTriggerEnd eventArgs,
           LogV ''InteractionEvent : On Interactor Trigger End Event'']
          @ aggregate @ dragEnd eventArgs))"

definition triggerCanceled ::
  "interactableEventArgs \<Rightarrow> interactable \<Rightarrow> interactable \<times> interactableEvent list" where
  "triggerCanceled eventArgs this =
     (this\<lparr>triggeringInteractor := InputType_None\<rparr>,
      [OnTriggerCanceled eventArgs, LogV ''InteractionEvent : On Trigger Canceled Event'']
      @ dragEnd eventArgs)"

subsection \<open>Sequences of hover calls\<close>

datatype hoverCall = HoverEnter interactableEventArgs | HoverExit interactableEventArgs

fun applyHover :: "hoverCall \<Rightarrow> interactable \<Rightarrow> interactable \<times> interactableEvent list" where
  "applyHover (HoverEnter eventArgs) this = hoverEnter eventArgs this"
| "applyHover (HoverExit eventArgs) this = hoverExit eventArgs this"

text \<open>
  One entry per call: the hover bitmask before the call, the events the call published,
  and the bitmask after it.
\<close>

type_synonym hoverStep = "interactorInputType \<times> interactableEvent list \<times> interactorInputType"

fun runHover :: "interactable \<Rightarrow> hoverCall list \<Rightarrow> hoverStep list" where
  "runHover this [] = []"
| "runHover this (c # cs) =
     (hoveringInteractor this, snd (applyHover c this),
      hoveringInteractor (fst (applyHover c this)))
     # runHover (fst (applyHover c this)) cs"

fun isOnHoverEnter :: "interactableEvent \<Rightarrow> bool" where
  "isOnHoverEnter (OnHoverEnter a) = True"
| "isOnHoverEnter e = False"

fun isOnHoverExit :: "interactableEvent \<Rightarrow> bool" where
  "isOnHoverExit (OnHoverExit a) = True"
| "isOnHoverExit e = False"

text \<open>
  A step is aligned when the aggregate events it published are exactly those of the
  transition it made: one \<open>onHoverEnter\<close> when the bitmask went from \<open>None\<close> to
  non-\<open>None\<close> and none otherwise, one \<open>onHoverExit\<close> when it went from non-\<open>None\<close> to
  \<open>None\<close> and none otherwise.
\<close>

fun alignedStep :: "hoverStep \<Rightarrow> bool" where
  "alignedStep (before, events, after) =
     (length (filter isOnHoverEnter events) =
        (if before = InputType_None \<and> after \<noteq> InputType_None then 1 else 0)
      \<and> length (filter isOnHoverExit events) =
        (if before \<noteq> InputType_None \<and> after = InputType_None then 1 else 0))"

text \<open>
  The calls that keep the aggregate events aligned: no \<open>hoverExit\<close> while nothing
  hovers, and no \<open>hoverEnter\<close> of input type \<open>None\<close> while nothing hovers.
\<close>

fun pairedHoverCalls :: "interactable \<Rightarrow> hoverCall list \<Rightarrow> bool" where
  "pairedHoverCalls this [] = True"
| "pairedHoverCalls this (HoverEnter eventArgs # cs) =
     (\<not> (hoveringInteractor this = InputType_None
          \<and> inputType (argInteractor eventArgs) = InputType_None)
      \<and> pairedHoverCalls (fst (hoverEnter eventArgs this)) cs)"
| "pairedHoverCalls this (HoverExit eventArgs # cs) =
     (hoveringInteractor this \<noteq> InputType_None
      \<and> pairedHoverCalls (fst (hoverExit eventArgs this)) cs)"

subsection \<open>Sample values\<close>

definition sampleInteractor :: interactor where
  "sampleInteractor =
     \<lparr> inputType = InputType_LeftHand, activeTargetingMode = Direct,
       startPoint = Some (Vec3 0 0 10), orientation = Some (Quat 1 0 0 0),
       direction = Some (Vec3 0 0 1), distanceToTarget = Some 0,
       maxRaycastDistance = 500, currentTrigger = TriggerPinch,
       currentInteractable = Some 0, isActive = True,
       currentDragVector = None, previousDragVector = None,
       planecastDragVector = None, touchpadDragVector = None \<rparr>"

definition sampleArgs :: interactableEventArgs where
  "sampleArgs = \<lparr> argInteractor = sampleInteractor \<rparr>"

definition sampleRightArgs :: interactableEventArgs where
  "sampleRightArgs =
     \<lparr> argInteractor = sampleInteractor\<lparr>inputType := InputType_RightHand\<rparr> \<rparr>"

definition sampleDraggingArgs :: interactableEventArgs where
  "sampleDraggingArgs =
     \<lparr> argInteractor = sampleInteractor\<lparr>previousDragVector := Some (Vec3 1 0 0)\<rparr> \<rparr>"

definition idleInteractable :: interactable where
  "idleInteractable =
     \<lparr> objectRef = 0, hoveringInteractor = InputType_None,
       triggeringInteractor = InputType_None \<rparr>"

section \<open>Arithmetic of the host engine\<close>

text \<open>
  The vector and quaternion methods the manipulation component calls. Rotations are unit
  quaternions, whose inverse is the conjugate; \<open>multiplyVec3\<close> rotates a vector,
  \<open>q v q\<^sup>*\<close>.
\<close>

definition vec3_zero :: vec3 where
  "vec3_zero = Vec3 0 0 0"

definition vec3_up :: vec3 where
  "vec3_up = Vec3 0 1 0"

definition vec3_right :: vec3 where
  "vec3_right = Vec3 1 0 0"

definition vec3_forward :: vec3 where
  "vec3_forward = Vec3 0 0 1"

definition vec3_add :: "vec3 \<Rightarrow> vec3 \<Rightarrow> vec3" where
  "vec3_add a b = Vec3 (vx a + vx b) (vy a + vy b) (vz a + vz b)"

definition vec3_sub :: "vec3 \<Rightarrow> vec3 \<Rightarrow> vec3" where
  "vec3_sub a b = Vec3 (vx a - vx b) (vy a - vy b) (vz a - vz b)"

definition uniformScale :: "vec3 \<Rightarrow> real \<Rightarrow> vec3" where
  "uniformScale a k = Vec3 (vx a * k) (vy a * k) (vz a * k)"

definition vec3_dot :: "vec3 \<Rightarrow> vec3 \<Rightarrow> real" where
  "vec3_dot a b = vx a * vx b + vy a * vy b + vz a * vz b"

definition vec3_length :: "vec3 \<Rightarrow> real" where
  "vec3_length a = sqrt (vec3_dot a a)"

definition vec3_distance :: "vec3 \<Rightarrow> vec3 \<Rightarrow> real" where
  "vec3_distance a b = vec3_length (vec3_sub a b)"

text \<open>\<open>projectOnPlane\<close> is only called with one of the unit axes as the plane's normal.\<close>

definition projectOnPlane :: "vec3 \<Rightarrow> vec3 \<Rightarrow> vec3" where
  "projectOnPlane a normal = vec3_sub a (uniformScale normal (vec3_dot a normal))"

definition quatIdentity :: quat where
  "quatIdentity = Quat 1 0 0 0"

definition quat_multiply :: "quat \<Rightarrow> quat \<Rightarrow> quat" where
  "quat_multiply a b =
     Quat (qw a * qw b - qx a * qx b - qy a * qy b - qz a * qz b)
          (qw a * qx b + qx a * qw b + qy a * qz b - qz a * qy b)
          (qw a * qy b - qx a * qz b + qy a * qw b + qz a * qx b)
          (qw a * qz b + qx a * qy b - qy a * qx b + qz a * qw b)"

definition quat_invert :: "quat \<Rightarrow> quat" where
  "quat_invert a = Quat (qw a) (- qx a) (- qy a) (- qz a)"


definition multiplyVec3 :: "quat \<Rightarrow> vec3 \<Rightarrow> vec3" where
  "multiplyVec3 a v =
     (let r = quat_multiply (quat_multiply a (Quat 0 (vx v) (vy v) (vz v))) (quat_invert a)
      in Vec3 (qx r) (qy r) (qz r))"

definition lerp :: "real \<Rightarrow> real \<Rightarrow> real \<Rightarrow> real" where
  "lerp a b t = a + (b - a) * t"

definition clamp :: "real \<Rightarrow> real \<Rightarrow> real \<Rightarrow> real" where
  "clamp v lo hi = max lo (min v hi)"

section \<open>The host: what the component reads from outside\<close>

type_synonym interactorRef = nat

text \<open>
  Modelled from the spec: the classes \<open>OneEuroFilterVec3\<close> and \<open>OneEuroFilterQuat\<close> of
  Utils/OneEuroFilter are not among the sources. A filter keeps the previous filtered
  value, the previous derivative and the previous sample time; \<open>reset\<close> clears this
  state, the first sample after a reset is returned unfiltered, and every later sample is
  blended with the previous value. The blend itself is a function of the host.
\<close>

type_synonym 'a oneEuroFilter = "('a \<times> 'a \<times> real) option"

definition filterReset :: "'a oneEuroFilter" where
  "filterReset = None"

definition filterSample ::
  "('a \<times> 'a \<times> real \<Rightarrow> 'a \<Rightarrow> real \<Rightarrow> 'a \<times> 'a) \<Rightarrow> 'a \<Rightarrow> 'a oneEuroFilter \<Rightarrow> 'a \<Rightarrow> real
     \<Rightarrow> 'a \<times> 'a oneEuroFilter" where
  "filterSample blend noDerivative f sample t =
     (case f of
        None \<Rightarrow> (sample, Some (sample, noDerivative, t))
      | Some prev \<Rightarrow>
          (let (filtered, derivative) = blend prev sample t
           in (filtered, Some (filtered, derivative, t))))"

text \<open>
  The host supplies, for the call of one handler: the live interactor objects behind the
  references, the interaction manager's \<open>getInteractorsByType\<close>, the camera, the clock,
  and the engine functions whose formulas are not part of the component
  (\<open>quat.lookAt\<close>, \<open>toEulerAngles\<close>, \<open>quat.fromEulerVec\<close>, the filters' blends, and the
  scene graph's conversion of a local scale to a world scale).
\<close>

record host =
  interactorObject :: "interactorRef \<Rightarrow> interactor"
  getInteractorsByType :: "interactorInputType \<Rightarrow> interactorRef list"
  cameraWorldRotation :: quat
  cameraSpaceZ :: "vec3 \<Rightarrow> real"
  getDeltaTime :: real
  getTime :: real
  lookAt :: "vec3 \<Rightarrow> vec3 \<Rightarrow> quat"
  toEulerAngles :: "quat \<Rightarrow> vec3"
  fromEulerVec :: "vec3 \<Rightarrow> quat"
  blendVec3 :: "vec3 \<times> vec3 \<times> real \<Rightarrow> vec3 \<Rightarrow> real \<Rightarrow> vec3 \<times> vec3"
  blendQuat :: "quat \<times> quat \<times> real \<Rightarrow> quat \<Rightarrow> real \<Rightarrow> quat \<times> quat"
  localToWorldScale :: "vec3 \<Rightarrow> vec3"

section \<open>InteractableManipulation\<close>

text \<open>
  The manipulated transform. A \<open>mat4\<close> is kept as the position, rotation and scale it
  composes.
\<close>

datatype mat4 = Compose vec3 quat vec3

record sceneTransform =
  worldPosition :: vec3
  worldRotation :: quat
  localScale :: vec3

definition getWorldScale :: "host \<Rightarrow> sceneTransform \<Rightarrow> vec3" where
  "getWorldScale h tr = localToWorldScale h (localScale tr)"

definition getWorldTransform :: "host \<Rightarrow> sceneTransform \<Rightarrow> mat4" where
  "getWorldTransform h tr =
     Compose (worldPosition tr) (worldRotation tr) (getWorldScale h tr)"

record cachedTransform =
  transform :: mat4
  position :: vec3
  rotation :: quat
  scale :: vec3

datatype rotationAxis = AxisAll | AxisX | AxisY | AxisZ

definition MOBILE_DRAG_MULTIPLIER :: real where
  "MOBILE_DRAG_MULTIPLIER = 0.5"

definition STRETCH_SMOOTH_SPEED :: real where
  "STRETCH_SMOOTH_SPEED = 15"

definition YAW_NEGATIVE_90 :: "host \<Rightarrow> quat" where
  "YAW_NEGATIVE_90 h = fromEulerVec h (Vec3 0 (- 90) 0)"

definition MAX_USER_ARM_EXTENSION_CM :: real where
  "MAX_USER_ARM_EXTENSION_CM = 100"

definition MIN_DRAG_DISTANCE_CM :: real where
  "MIN_DRAG_DISTANCE_CM = 0.0001"

record interactableManipulation =
  enabled :: bool
  minimumScaleFactor :: real
  maximumScaleFactor :: real
  enableTranslation :: bool
  enableRotation :: bool
  enableScale :: bool
  enableStretchZ :: bool
  zStretchFactorMin :: real
  zStretchFactorMax :: real
  useFilter :: bool
  enableXTranslation :: bool
  enableYTranslation :: bool
  enableZTranslation :: bool
  rotationAxisOf :: rotationAxis
  manipulateRoot :: sceneTransform
  originalWorldTransform :: cachedTransform
  originalLocalTransform :: cachedTransform
  startTransform :: cachedTransform
  offsetPosition :: vec3
  offsetRotation :: quat
  initialInteractorDistance :: real
  startStretchInteractorDistance :: real
  mobileStretch :: real
  smoothedStretch :: real
  initialObjectScale :: vec3
  hitPointToTransform :: vec3
  interactors :: "interactorRef list"
  cachedTargetingMode :: targetingMode
  currentRotationSign :: real
  currentUp :: vec3
  translateFilter :: "vec3 oneEuroFilter"
  rotationFilter :: "quat oneEuroFilter"
  scaleFilter :: "vec3 oneEuroFilter"

text \<open>
  The events of the component, with their payloads (the constant \<open>interactable\<close> field is
  left out), and its log lines. An \<open>Event\<close> object handed to \<open>invokeEvents\<close> is named
  by its phase.
\<close>

datatype phase = Start | Update | End

record translateEventArg =
  translateInteractors :: "interactorRef list"
  startPosition :: vec3
  currentPosition :: vec3

record rotationEventArg =
  rotationInteractors :: "interactorRef list"
  startRotation :: quat
  currentRotation :: quat

record scaleEventArg =
  scaleInteractors :: "interactorRef list"
  startWorldScale :: vec3
  currentWorldScale :: vec3

record transformEventArg =
  transformInteractors :: "interactorRef list"
  startTransformMatrix :: mat4
  currentTransformMatrix :: mat4

record scaleLimitEventArg =
  scaleLimitInteractors :: "interactorRef list"
  currentValue :: vec3

datatype manipulationEvent =
    OnTranslation phase translateEventArg
  | OnRotation phase rotationEventArg
  | OnScale phase scaleEventArg
  | OnManipulation phase transformEventArg
  | OnScaleLimitReached scaleLimitEventArg
  | LogVerbose string
  | LogWarning string nat
  | LogError string

definition canTranslate :: "interactableManipulation \<Rightarrow> bool" where
  "canTranslate this = enableTranslation this"

definition canRotate :: "interactableManipulation \<Rightarrow> bool" where
  "canRotate this = enableRotation this"

definition canScale :: "interactableManipulation \<Rightarrow> bool" where
  "canScale this = enableScale this"

text \<open>The \<open>??\<close> operator: the value, or the default when it is null.\<close>

definition nullish :: "'a option \<Rightarrow> 'a \<Rightarrow> 'a" where
  "nullish v d = (case v of None \<Rightarrow> d | Some a \<Rightarrow> a)"

text \<open>
  The list holds interactor objects, never null, so the test \<open>interactor !== null\<close> is
  true throughout.
\<close>

definition isInteractorValid :: "interactor \<Rightarrow> bool" where
  "isInteractorValid i =
     (startPoint i \<noteq> None \<and> orientation i \<noteq> None \<and> direction i \<noteq> None
      \<and> distanceToTarget i \<noteq> None \<and> isActive i)"

definition getRayPosition :: "interactor \<Rightarrow> vec3" where
  "getRayPosition i =
     (if isInteractorValid i = False then vec3_zero
      else vec3_add (nullish (startPoint i) vec3_zero)
             (uniformScale (nullish (direction i) vec3_zero)
                (nullish (distanceToTarget i) 0)))"

definition limitQuatRotation :: "host \<Rightarrow> interactableManipulation \<Rightarrow> quat \<Rightarrow> quat" where
  "limitQuatRotation h this rot =
     fromEulerVec h (if \<not> canRotate this then Vec3 0 0 0 else toEulerAngles h rot)"

definition getDualInteractorDirection ::
  "host \<Rightarrow> interactor \<Rightarrow> interactor \<Rightarrow> interactableManipulation
     \<Rightarrow> quat option \<times> interactableManipulation \<times> manipulationEvent list" where
  "getDualInteractorDirection h interactor1 interactor2 this =
     (case (startPoint interactor1, startPoint interactor2) of
        (Some p1, Some p2) \<Rightarrow>
          (let axis = (case rotationAxisOf this of
                         AxisX \<Rightarrow> vec3_right | AxisY \<Rightarrow> vec3_up
                       | AxisZ \<Rightarrow> vec3_forward | AxisAll \<Rightarrow> vec3_zero);
               point1 = (if rotationAxisOf this \<noteq> AxisAll then projectOnPlane p1 axis else p1);
               point2 = (if rotationAxisOf this \<noteq> AxisAll then projectOnPlane p2 axis else p2);
               sign = (if rotationAxisOf this = AxisX then sgn (vz point2 - vz point1)
                       else if rotationAxisOf this = AxisZ then sgn (vx point2 - vx point1)
                       else 0);
               this' = (if sign \<noteq> currentRotationSign this
                        then this\<lparr>currentUp := uniformScale (currentUp this) (- 1),
                                  currentRotationSign := sign\<rparr>
                        else this);
               rot = quat_multiply (lookAt h (vec3_sub point2 point1) (currentUp this'))
                       (YAW_NEGATIVE_90 h)
           in (Some (limitQuatRotation h this' rot), this', []))
      | _ \<Rightarrow>
          (None, this,
           [LogError ''Interactors and their start points should not be null for getDualInteractorDirection'']))"

definition snapshotRoot :: "host \<Rightarrow> sceneTransform \<Rightarrow> cachedTransform" where
  "snapshotRoot h tr =
     \<lparr> transform = getWorldTransform h tr, position = worldPosition tr,
       rotation = worldRotation tr, scale = getWorldScale h tr \<rparr>"

definition updateStartValues ::
  "host \<Rightarrow> interactableManipulation \<Rightarrow> interactableManipulation \<times> manipulationEvent list" where
  "updateStartValues h this0 =
     (let this = this0\<lparr>mobileStretch := 0, smoothedStretch := 0,
                    startStretchInteractorDistance := 0,
                    translateFilter := filterReset, rotationFilter := filterReset,
                    scaleFilter := filterReset,
                    startTransform := snapshotRoot h (manipulateRoot this0)\<rparr>;
          cameraRotation = cameraWorldRotation h
      in if length (interactors this) = 1 then
           (let i = interactorObject h (interactors this ! 0)
            in if isInteractorValid i = False
               then (this, [LogError ''Interactor must not be valid for setting initial values''])
               else
                 (let startPt = nullish (startPoint i) vec3_zero;
                      orient = nullish (orientation i) quatIdentity;
                      this1 = this\<lparr>cachedTargetingMode := activeTargetingMode i\<rparr>
                  in if activeTargetingMode i = Direct
                     then (this1\<lparr>offsetPosition :=
                                    vec3_sub (position (startTransform this1)) startPt,
                                  offsetRotation :=
                                    quat_multiply (quat_invert orient)
                                      (rotation (startTransform this1))\<rparr>, [])
                     else
                       (let rayPosition = getRayPosition i
                        in (this1\<lparr>offsetPosition := vec3_sub rayPosition startPt,
                                   hitPointToTransform :=
                                     vec3_sub (position (startTransform this1)) rayPosition,
                                   offsetRotation :=
                                     quat_multiply (quat_invert cameraRotation)
                                       (rotation (startTransform this1))\<rparr>, []))))
         else if length (interactors this) = 2 then
           (let i0 = interactorObject h (interactors this ! 0);
                i1 = interactorObject h (interactors this ! 1)
            in if isInteractorValid i0 = False \<or> isInteractorValid i1 = False
               then (this, [LogError ''Both interactors must be valid for setting initial values''])
               else
                 (let isDirect = (activeTargetingMode i0 = Direct \<or> activeTargetingMode i1 = Direct);
                      firstStartPoint = nullish (startPoint i0) vec3_zero;
                      secondStartPoint = nullish (startPoint i1) vec3_zero;
                      interactorMidPoint =
                        uniformScale (vec3_add firstStartPoint secondStartPoint) 0.5;
                      this1 = this\<lparr>cachedTargetingMode := (if isDirect then Direct else Indirect),
                                   currentUp := vec3_up, currentRotationSign := 0\<rparr>;
                      (dualInteractorDirection, this2, logs) =
                        getDualInteractorDirection h i0 i1 this1;
                      this3 = this2\<lparr>initialInteractorDistance :=
                                      vec3_distance firstStartPoint secondStartPoint,
                                    initialObjectScale := localScale (manipulateRoot this2)\<rparr>
                  in case dualInteractorDirection of
                       None \<Rightarrow> (this3, logs)
                     | Some dualDir \<Rightarrow>
                         (let this4 = this3\<lparr>offsetRotation :=
                                quat_multiply (quat_invert dualDir)
                                  (rotation (startTransform this3))\<rparr>
                          in if isDirect
                             then (this4\<lparr>offsetPosition :=
                                      vec3_sub (position (startTransform this4))
                                        interactorMidPoint\<rparr>, logs)
                             else
                               (let firstRayPosition = getRayPosition i0;
                                    secondRayPosition = getRayPosition i1;
                                    dualRayPosition =
                                      uniformScale
                                        (vec3_add firstRayPosition secondRayPosition) 0.5
                                in (this4\<lparr>offsetPosition :=
                                       vec3_sub dualRayPosition interactorMidPoint,
                                     hitPointToTransform :=
                                       vec3_sub (position (startTransform this4))
                                         dualRayPosition\<rparr>, logs)))))
         else (this, []))"

text \<open>
  \<open>getTriggeringInteractors\<close>: the interactors of the types in the Interactable's trigger
  bitmask, kept when they target this Interactable and hold a trigger. The result of
  \<open>filter\<close> is never null, so the branch that logs and returns the empty list is dead.
\<close>

definition getTriggeringInteractors :: "host \<Rightarrow> interactable \<Rightarrow> interactorRef list" where
  "getTriggeringInteractors h itb =
     filter (\<lambda>r. currentInteractable (interactorObject h r) = Some (objectRef itb)
                 \<and> currentTrigger (interactorObject h r) \<noteq> TriggerNone)
       (getInteractorsByType h (triggeringInteractor itb))"

definition invokeEvents ::
  "host \<Rightarrow> phase option \<Rightarrow> phase option \<Rightarrow> phase option \<Rightarrow> phase option
     \<Rightarrow> interactableManipulation \<Rightarrow> manipulationEvent list" where
  "invokeEvents h translateEvent rotationEvent scaleEvent manipulationEvent this =
     (case translateEvent of
        Some ph \<Rightarrow>
          (if canTranslate this
           then [OnTranslation ph
                   \<lparr> translateInteractors = interactors this,
                     startPosition = position (startTransform this),
                     currentPosition = worldPosition (manipulateRoot this) \<rparr>]
           else [])
      | None \<Rightarrow> [])
     @ (case rotationEvent of
          Some ph \<Rightarrow>
            (if canRotate this
             then [OnRotation ph
                     \<lparr> rotationInteractors = interactors this,
                       startRotation = rotation (startTransform this),
                       currentRotation = worldRotation (manipulateRoot this) \<rparr>]
             else [])
        | None \<Rightarrow> [])
     @ (case scaleEvent of
          Some ph \<Rightarrow>
            (if canScale this
             then [OnScale ph
                     \<lparr> scaleInteractors = interactors this,
                       startWorldScale = scale (startTransform this),
                       currentWorldScale = getWorldScale h (manipulateRoot this) \<rparr>]
             else [])
        | None \<Rightarrow> [])
     @ (case manipulationEvent of
          Some ph \<Rightarrow>
            (if canTranslate this \<or> canRotate this \<or> canScale this
             then [OnManipulation ph
                     \<lparr> transformInteractors = interactors this,
                       startTransformMatrix = transform (startTransform this),
                       currentTransformMatrix = getWorldTransform h (manipulateRoot this) \<rparr>]
             else [])
        | None \<Rightarrow> [])"

definition onTriggerToggle ::
  "host \<Rightarrow> interactable \<Rightarrow> interactableManipulation
     \<Rightarrow> interactableManipulation \<times> manipulationEvent list" where
  "onTriggerToggle h itb this =
     (if \<not> enabled this \<or> (\<not> canTranslate this \<and> \<not> canRotate this \<and> \<not> canScale this)
      then (this, [])
      else
        (let previousInteractors = interactors this;
             previousInteractorsCount = length previousInteractors;
             currentInteractors = getTriggeringInteractors h itb;
             currentInteractorsCount = length currentInteractors;
             wasManipulating = (previousInteractorsCount > 0);
             isManipulating = (currentInteractorsCount > 0);
             countChanged = (previousInteractorsCount \<noteq> currentInteractorsCount);
             wasScaling = (previousInteractorsCount = 2);
             isScaling = (currentInteractorsCount = 2)
         in if isManipulating then
              (let endEvents =
                     (if wasManipulating \<and> countChanged
                      then invokeEvents h (Some End) (Some End)
                             (if wasScaling then Some End else None) (Some End) this
                           @ [LogVerbose ''InteractionEvent : On Manipulation End Event'']
                      else []);
                   (this1, logs) = updateStartValues h (this\<lparr>interactors := currentInteractors\<rparr>)
               in (this1,
                   endEvents @ logs
                   @ invokeEvents h (Some Start) (Some Start)
                       (if isScaling then Some Start else None) (Some Start) this1
                   @ [LogVerbose ''InteractionEvent : On Manipulation Start Event'']))
            else if wasManipulating then
              (this\<lparr>interactors := currentInteractors\<rparr>,
               invokeEvents h (Some End) (Some End)
                 (if wasScaling then Some End else None) (Some End) this
               @ [LogVerbose ''InteractionEvent : On Manipulation End Event''])
            else (this\<lparr>interactors := currentInteractors\<rparr>, [])))"

subsection \<open>Per-frame solving\<close>

definition updatePosition ::
  "host \<Rightarrow> vec3 \<Rightarrow> bool \<Rightarrow> interactableManipulation \<Rightarrow> interactableManipulation" where
  "updatePosition h newPosition filtered this =
     (let locked =
            Vec3 (if \<not> enableXTranslation this then vx (worldPosition (manipulateRoot this))
                  else vx newPosition)
                 (if \<not> enableYTranslation this then vy (worldPosition (manipulateRoot this))
                  else vy newPosition)
                 (if \<not> enableZTranslation this then vz (worldPosition (manipulateRoot this))
                  else vz newPosition);
          (applied, f) =
            (if filtered
             then filterSample (blendVec3 h) vec3_zero (translateFilter this) locked (getTime h)
             else (locked, translateFilter this))
      in this\<lparr>translateFilter := f,
              manipulateRoot := (manipulateRoot this)\<lparr>worldPosition := applied\<rparr>\<rparr>)"

definition updateRotation ::
  "host \<Rightarrow> quat \<Rightarrow> bool \<Rightarrow> interactableManipulation \<Rightarrow> interactableManipulation" where
  "updateRotation h newRotation filtered this =
     (let (applied, f) =
            (if filtered
             then filterSample (blendQuat h) quatIdentity (rotationFilter this) newRotation
                    (getTime h)
             else (newRotation, rotationFilter this))
      in this\<lparr>rotationFilter := f,
              manipulateRoot := (manipulateRoot this)\<lparr>worldRotation := applied\<rparr>\<rparr>)"

definition calculateStretchFactor ::
  "host \<Rightarrow> interactor \<Rightarrow> interactableManipulation \<Rightarrow> real \<times> interactableManipulation" where
  "calculateStretchFactor h i this =
     (if enableStretchZ this = False then (1, this)
      else
        (let startPt = nullish (startPoint i) vec3_zero;
             interactorDistance = cameraSpaceZ h startPt * (- 1);
             this1 = (if startStretchInteractorDistance this = 0
                      then this\<lparr>startStretchInteractorDistance := interactorDistance\<rparr>
                      else this);
             dragAmount = interactorDistance - startStretchInteractorDistance this1;
             maxDragDistance =
               max MIN_DRAG_DISTANCE_CM (maxRaycastDistance i - MAX_USER_ARM_EXTENSION_CM);
             currDistance = nullish (distanceToTarget i) 0;
             distanceFactor =
               (zStretchFactorMax this1 / maxDragDistance) * currDistance
               + zStretchFactorMin this1;
             minStretch = - vec3_length (offsetPosition this1) + 1;
             maxStretch =
               max minStretch (- vec3_length (offsetPosition this1) + maxDragDistance - 1);
             finalStretchAmount = clamp (dragAmount * distanceFactor) minStretch maxStretch
         in if inputType i AND InputType_Mobile \<noteq> 0 then
              (let mobileDragVector = nullish (touchpadDragVector i) vec3_zero;
                   mobileMoveAmount =
                     (if vz mobileDragVector = 0
                      then vy mobileDragVector * MOBILE_DRAG_MULTIPLIER else 0);
                   accumulated = mobileStretch this1 + mobileMoveAmount * distanceFactor;
                   bounded =
                     min (maxStretch - finalStretchAmount)
                       (max (minStretch - finalStretchAmount) accumulated)
               in (finalStretchAmount + bounded, this1\<lparr>mobileStretch := bounded\<rparr>))
            else (finalStretchAmount, this1)))"

definition singleInteractorTransform ::
  "host \<Rightarrow> interactor \<Rightarrow> interactableManipulation
     \<Rightarrow> interactableManipulation \<times> manipulationEvent list" where
  "singleInteractorTransform h i this =
     (if isInteractorValid i = False then (this, [LogError ''Interactor must be valid''])
      else
        (let startPt = nullish (startPoint i) vec3_zero;
             orient = nullish (orientation i) quatIdentity;
             dir = nullish (direction i) vec3_zero;
             limitRotation =
               quat_multiply (limitQuatRotation h this orient) (offsetRotation this);
             deltaRotation0 =
               (if rotationAxisOf this = AxisAll
                then quat_multiply limitRotation
                       (quat_invert (worldRotation (manipulateRoot this)))
                else quatIdentity);
             (this1, deltaRotation) =
               (if enableTranslation this then
                  (if cachedTargetingMode this = Direct then
                     (updatePosition h
                        (vec3_add startPt
                           (if canRotate this
                            then multiplyVec3
                                   (quat_multiply limitRotation
                                      (quat_invert (rotation (startTransform this))))
                                   (offsetPosition this)
                            else offsetPosition this))
                        (useFilter this) this,
                      deltaRotation0)
                   else
                     (let (stretch, thisA) = calculateStretchFactor h i this;
                          thisB = thisA\<lparr>smoothedStretch :=
                                    lerp (smoothedStretch thisA) stretch
                                      (getDeltaTime h * STRETCH_SMOOTH_SPEED)\<rparr>;
                          offset =
                            vec3_add (uniformScale dir (vec3_length (offsetPosition thisB)))
                              (hitPointToTransform thisB);
                          newPosition =
                            vec3_add (vec3_add startPt offset)
                              (uniformScale dir (smoothedStretch thisB))
                      in (updatePosition h newPosition (useFilter thisB) thisB,
                          quatIdentity)))
                else (this, deltaRotation0))
         in if canRotate this1 \<and> cachedTargetingMode this1 = Direct
            then (updateRotation h
                    (quat_multiply deltaRotation (worldRotation (manipulateRoot this1)))
                    (useFilter this1) this1, [])
            else (this1, [])))"

text \<open>
  A vector of the model has real components. Where the source's arithmetic leaves the
  finite numbers (a component becomes \<open>Infinity\<close> or \<open>NaN\<close>) the model ends with
  \<open>NonFinite\<close>. \<open>TypeError\<close> is the exception of reading a property of \<open>undefined\<close>.
\<close>

datatype failure = TypeError | NonFinite

text \<open>
  The two ratios of \<open>clampUniformScale\<close> are doubles that may be infinite or \<open>NaN\<close>
  while the scale itself stays finite, so they are kept in a type of their own:
  \<open>x / 0\<close> is \<open>Infinity\<close> with the sign of \<open>x\<close> and \<open>0 / 0\<close> is \<open>NaN\<close>; \<open>Math.min\<close> is
  \<open>NaN\<close> when one of its arguments is; a comparison with \<open>NaN\<close> is false;
  \<open>1 / Infinity\<close> is 0. The reals have one zero, which stands for the source's \<open>+0\<close>.
\<close>

datatype jsNumber = Finite real | PosInfinity | NegInfinity | NotANumber

definition jsDivide :: "real \<Rightarrow> real \<Rightarrow> jsNumber" where
  "jsDivide a b =
     (if b \<noteq> 0 then Finite (a / b)
      else if 0 < a then PosInfinity
      else if a < 0 then NegInfinity
      else NotANumber)"

fun jsMin :: "jsNumber \<Rightarrow> jsNumber \<Rightarrow> jsNumber" where
  "jsMin NotANumber b = NotANumber"
| "jsMin a NotANumber = NotANumber"
| "jsMin NegInfinity b = NegInfinity"
| "jsMin a NegInfinity = NegInfinity"
| "jsMin PosInfinity b = b"
| "jsMin a PosInfinity = a"
| "jsMin (Finite a) (Finite b) = Finite (min a b)"

fun jsLess :: "jsNumber \<Rightarrow> real \<Rightarrow> bool" where
  "jsLess (Finite a) c = (a < c)"
| "jsLess NegInfinity c = True"
| "jsLess PosInfinity c = False"
| "jsLess NotANumber c = False"

fun jsGreater :: "jsNumber \<Rightarrow> real \<Rightarrow> bool" where
  "jsGreater (Finite a) c = (a > c)"
| "jsGreater PosInfinity c = True"
| "jsGreater NegInfinity c = False"
| "jsGreater NotANumber c = False"

fun jsReciprocal :: "jsNumber \<Rightarrow> jsNumber" where
  "jsReciprocal (Finite a) = (if a \<noteq> 0 then Finite (1 / a) else PosInfinity)"
| "jsReciprocal PosInfinity = Finite 0"
| "jsReciprocal NegInfinity = Finite 0"
| "jsReciprocal NotANumber = NotANumber"

text \<open>
  \<open>uniformScale\<close> with a factor that may be infinite or \<open>NaN\<close>: every component of the
  product is then \<open>Infinity\<close> or \<open>NaN\<close>.
\<close>

fun uniformScaleBy :: "vec3 \<Rightarrow> jsNumber \<Rightarrow> failure + vec3" where
  "uniformScaleBy v (Finite k) = Inr (uniformScale v k)"
| "uniformScaleBy v k = Inl NonFinite"

text \<open>
  \<open>clampUniformScale\<close> returns its argument itself when neither branch runs, and a new
  object from \<open>uniformScale\<close> otherwise. \<open>setScale\<close> compares the two by reference
  (\<open>newScale !== finalScale\<close>), so the result carries whether it is a new object.
\<close>

definition clampUniformScale :: "vec3 \<Rightarrow> vec3 \<Rightarrow> vec3 \<Rightarrow> failure + (vec3 \<times> bool)" where
  "clampUniformScale scaleV minScale maxScale =
     (let minRatio =
            jsMin (jsMin (jsDivide (vx scaleV) (vx minScale))
                         (jsDivide (vy scaleV) (vy minScale)))
              (jsDivide (vz scaleV) (vz minScale));
          maxRatio =
            jsMin (jsMin (jsDivide (vx scaleV) (vx maxScale))
                         (jsDivide (vy scaleV) (vy maxScale)))
              (jsDivide (vz scaleV) (vz maxScale))
      in case (if jsLess minRatio 1
               then (case uniformScaleBy scaleV (jsReciprocal minRatio) of
                       Inl e \<Rightarrow> Inl e
                     | Inr v \<Rightarrow> Inr (v, True))
               else Inr (scaleV, False)) of
           Inl e \<Rightarrow> Inl e
         | Inr (finalScale1, fresh1) \<Rightarrow>
             (if jsGreater maxRatio 1
              then (case uniformScaleBy finalScale1 (jsReciprocal maxRatio) of
                      Inl e \<Rightarrow> Inl e
                    | Inr v \<Rightarrow> Inr (v, True))
              else Inr (finalScale1, fresh1)))"

definition setScale ::
  "host \<Rightarrow> vec3 \<Rightarrow> bool \<Rightarrow> interactableManipulation
     \<Rightarrow> failure + (interactableManipulation \<times> manipulationEvent list)" where
  "setScale h newScale filtered this =
     (if \<not> canScale this then Inr (this, [])
      else
        (let minScale =
               uniformScale (scale (originalLocalTransform this)) (minimumScaleFactor this);
             maxScale =
               uniformScale (scale (originalLocalTransform this)) (maximumScaleFactor this)
         in case clampUniformScale newScale minScale maxScale of
              Inl e \<Rightarrow> Inl e
            | Inr (finalScale, fresh) \<Rightarrow>
                (let limitEvents =
                       (if fresh
                        then [OnScaleLimitReached
                                \<lparr> scaleLimitInteractors = interactors this,
                                  currentValue = finalScale \<rparr>]
                        else []);
                     (applied, f) =
                       (if filtered
                        then filterSample (blendVec3 h) vec3_zero (scaleFilter this) finalScale
                               (getTime h)
                        else (finalScale, scaleFilter this))
                 in Inr (this\<lparr>scaleFilter := f,
                              manipulateRoot := (manipulateRoot this)\<lparr>localScale := applied\<rparr>\<rparr>,
                         limitEvents))))"

definition dualInteractorsTransform ::
  "host \<Rightarrow> interactorRef list \<Rightarrow> interactableManipulation
     \<Rightarrow> failure + (interactableManipulation \<times> manipulationEvent list)" where
  "dualInteractorsTransform h interactorsArg this =
     (case interactorsArg of
        r0 # r1 # rest \<Rightarrow>
          (let i0 = interactorObject h r0;
               i1 = interactorObject h r1;
               logs0 =
                 (if length interactorsArg < 2 \<or> \<not> isInteractorValid i0 \<or> \<not> isInteractorValid i1
                  then [LogError ''There should be two valid interactors for dualInteractorsTransform'']
                  else []);
               isDirect = (cachedTargetingMode this = Direct)
           in case (startPoint i0, startPoint i1) of
                (Some startPoint1, Some startPoint2) \<Rightarrow>
                  (let interactorMidPoint =
                         uniformScale (vec3_add startPoint1 startPoint2) 0.5;
                       (dualDirection, this1, logs1) = getDualInteractorDirection h i0 i1 this
                   in case dualDirection of
                        None \<Rightarrow> Inr (this1, logs0 @ logs1)
                      | Some dualDir \<Rightarrow>
                          (let dualDistance = vec3_distance startPoint1 startPoint2;
                               this2 =
                                 (if canRotate this1
                                  then updateRotation h
                                         (quat_multiply dualDir (offsetRotation this1))
                                         (useFilter this1) this1
                                  else this1);
                               this3 =
                                 (if enableTranslation this2 then
                                    (if isDirect then
                                       updatePosition h
                                         (if canRotate this2 \<and> isDirect
                                          then vec3_add interactorMidPoint
                                                 (multiplyVec3
                                                    (quat_multiply
                                                       (worldRotation (manipulateRoot this2))
                                                       (quat_invert
                                                          (rotation (startTransform this2))))
                                                    (offsetPosition this2))
                                          else vec3_add interactorMidPoint (offsetPosition this2))
                                         (useFilter this2) this2
                                     else
                                       (let dualRaycastDistance =
                                              (maxRaycastDistance i0 + maxRaycastDistance i1) * 0.5;
                                            zDistance =
                                              min dualRaycastDistance
                                                (vec3_length (offsetPosition this2));
                                            direction1 = nullish (direction i0) vec3_zero;
                                            direction2 = nullish (direction i1) vec3_zero;
                                            dualRayDirection =
                                              uniformScale (vec3_add direction1 direction2) 0.5;
                                            finalOffset =
                                              vec3_add (uniformScale dualRayDirection zDistance)
                                                (hitPointToTransform this2)
                                        in updatePosition h
                                             (vec3_add interactorMidPoint finalOffset)
                                             (useFilter this2) this2))
                                  else this2)
                           in if canScale this3 \<and> initialInteractorDistance this3 \<noteq> 0 then
                                (let distanceDifference =
                                       dualDistance - initialInteractorDistance this3;
                                     uniformScalingFactor =
                                       1 + distanceDifference / initialInteractorDistance this3;
                                     updatedObjectScale =
                                       uniformScale (initialObjectScale this3) uniformScalingFactor
                                 in case setScale h updatedObjectScale (useFilter this3) this3 of
                                      Inl e \<Rightarrow> Inl e
                                    | Inr (this4, limitEvents) \<Rightarrow>
                                        Inr (this4,
                                             logs0 @ logs1 @ limitEvents
                                             @ [OnScale Update
                                                  \<lparr> scaleInteractors = interactors this4,
                                                    startWorldScale = scale (startTransform this4),
                                                    currentWorldScale =
                                                      getWorldScale h (manipulateRoot this4) \<rparr>]))
                              else Inr (this3, logs0 @ logs1)))
              | _ \<Rightarrow>
                  Inr (this,
                       logs0 @ [LogError ''Both start points should be valid for dualInteractorsTransform'']))
      | _ \<Rightarrow> Inl TypeError)"

definition onTriggerUpdate ::
  "host \<Rightarrow> interactableManipulation
     \<Rightarrow> failure + (interactableManipulation \<times> manipulationEvent list)" where
  "onTriggerUpdate h this =
     (if \<not> enabled this \<or> (\<not> canTranslate this \<and> \<not> canRotate this \<and> \<not> canScale this)
      then Inr (this, [])
      else if length (interactors this) = 1 then
        (let (this1, logs) =
               singleInteractorTransform h (interactorObject h (interactors this ! 0)) this
         in Inr (this1,
                 logs @ invokeEvents h (Some Update) (Some Update) None (Some Update) this1))
      else if length (interactors this) = 2 then
        (case dualInteractorsTransform h (interactors this) this of
           Inl e \<Rightarrow> Inl e
         | Inr (this1, events) \<Rightarrow>
             Inr (this1,
                  events @ invokeEvents h (Some Update) (Some Update) None (Some Update) this1))
      else
        Inr (this,
             [LogWarning ''interactors found for onTriggerUpdate. This is not supported.''
                (length (interactors this))]))"

subsection \<open>What a handler published\<close>

text \<open>
  The events of a trace without the log lines and without their measured values: the
  channel, the phase and the interactors the event carries. The scale-limit event is not
  part of a start, update or end set.
\<close>

datatype channel = Translation | Rotation | Scaling | Manipulation



subsection \<open>Sample scene\<close>

definition leftHand :: interactor where
  "leftHand = sampleInteractor\<lparr>startPoint := Some (Vec3 (- 5) 0 10)\<rparr>"

definition rightHand :: interactor where
  "rightHand = sampleInteractor\<lparr>inputType := InputType_RightHand,
                                startPoint := Some (Vec3 5 0 10)\<rparr>"

definition mobileController :: interactor where
  "mobileController = sampleInteractor\<lparr>inputType := InputType_Mobile,
                                       activeTargetingMode := Indirect\<rparr>"

definition sampleObjects :: "interactorRef \<Rightarrow> interactor" where
  "sampleObjects r = (if r = 0 then leftHand else if r = 1 then rightHand else mobileController)"

text \<open>
  A host for the sample scene: the interaction manager knows the three interactors and
  returns those whose type is in the requested mask; the camera sits at the origin; the
  engine's rotation functions are stood in for by their values at the identity rotation.
\<close>

definition sampleHost :: host where
  "sampleHost =
     \<lparr> interactorObject = sampleObjects,
       getInteractorsByType =
         (\<lambda>types. filter (\<lambda>r. inputType (sampleObjects r) AND types \<noteq> 0) [0, 1, 2]),
       cameraWorldRotation = quatIdentity,
       cameraSpaceZ = (\<lambda>p. - vz p),
       getDeltaTime = 1 / 60,
       getTime = 0,
       lookAt = (\<lambda>forward up. quatIdentity),
       toEulerAngles = (\<lambda>q. Vec3 0 0 0),
       fromEulerVec = (\<lambda>e. quatIdentity),
       blendVec3 = (\<lambda>prev sample t. (sample, vec3_zero)),
       blendQuat = (\<lambda>prev sample t. (sample, quatIdentity)),
       localToWorldScale = (\<lambda>s. s) \<rparr>"

definition sampleRoot :: sceneTransform where
  "sampleRoot =
     \<lparr> worldPosition = Vec3 1 2 10, worldRotation = Quat 0 0 1 0, localScale = Vec3 1 1 1 \<rparr>"

text \<open>
  The component after \<open>onAwake\<close>, with the defaults of its inputs. The sample object
  has no parent, so its local transform is its world transform.
\<close>

definition sampleManipulation :: interactableManipulation where
  "sampleManipulation =
     \<lparr> enabled = True, minimumScaleFactor = 0.25, maximumScaleFactor = 20,
       enableTranslation = True, enableRotation = True, enableScale = True,
       enableStretchZ = True, zStretchFactorMin = 1, zStretchFactorMax = 12,
       useFilter = True, enableXTranslation = True, enableYTranslation = True,
       enableZTranslation = True, rotationAxisOf = AxisAll,
       manipulateRoot = sampleRoot,
       originalWorldTransform = snapshotRoot sampleHost sampleRoot,
       originalLocalTransform =
         \<lparr> transform = Compose (Vec3 1 2 10) (Quat 0 0 1 0) (Vec3 1 1 1),
           position = Vec3 1 2 10, rotation = Quat 0 0 1 0, scale = Vec3 1 1 1 \<rparr>,
       startTransform =
         \<lparr> transform = Compose vec3_zero quatIdentity (Vec3 1 1 1), position = vec3_zero,
           rotation = quatIdentity, scale = Vec3 1 1 1 \<rparr>,
       offsetPosition = vec3_zero, offsetRotation = quatIdentity,
       initialInteractorDistance = 0, startStretchInteractorDistance = 0,
       mobileStretch = 0, smoothedStretch = 0, initialObjectScale = vec3_zero,
       hitPointToTransform = vec3_zero, interactors = [],
       cachedTargetingMode = TargetingNone, currentRotationSign = 0,
       currentUp = vec3_zero, translateFilter = None, rotationFilter = None,
       scaleFilter = None \<rparr>"

definition triggeredBy :: "interactorInputType \<Rightarrow> interactable" where
  "triggeredBy types = idleInteractable\<lparr>triggeringInteractor := types\<rparr>"

text \<open>What a per-frame update did to the local scale, when it completed.\<close>

definition resultScale ::
  "failure + (interactableManipulation \<times> manipulationEvent list) \<Rightarrow> failure + vec3" where
  "resultScale res =
     (case res of Inl e \<Rightarrow> Inl e | Inr (this, events) \<Rightarrow> Inr (localScale (manipulateRoot this)))"

text \<open>
  The two-handed scenario: both hands, 10 apart, grab the sample object; on a later frame
  they are 20 apart and 3 higher. In the last host the tracking of the left hand has lost
  its orientation on that frame.
\<close>

definition dualGrabbed :: interactableManipulation where
  "dualGrabbed =
     fst (onTriggerToggle sampleHost (triggeredBy (InputType_LeftHand OR InputType_RightHand))
            sampleManipulation)"

definition movedObjects :: "interactorRef \<Rightarrow> interactor" where
  "movedObjects r =
     (if r = 0 then leftHand\<lparr>startPoint := Some (Vec3 (- 10) 3 10)\<rparr>
      else if r = 1 then rightHand\<lparr>startPoint := Some (Vec3 10 3 10)\<rparr>
      else mobileController)"

definition movedHost :: host where
  "movedHost = sampleHost\<lparr>interactorObject := movedObjects, getTime := 1 / 60\<rparr>"

definition lostOrientationHost :: host where
  "lostOrientationHost =
     movedHost\<lparr>interactorObject :=
       (\<lambda>r. if r = 0 then (movedObjects 0)\<lparr>orientation := None\<rparr> else movedObjects r)\<rparr>"

text \<open>
  The same scene after another script has stretched the object to the local scale
  \<open>(1, 2, 1)\<close>: both hands grab it 10 apart and move 150 apart.
\<close>

definition stretchedGrabbed :: interactableManipulation where
  "stretchedGrabbed =
     fst (onTriggerToggle sampleHost (triggeredBy (InputType_LeftHand OR InputType_RightHand))
            (sampleManipulation\<lparr>manipulateRoot := sampleRoot\<lparr>localScale := Vec3 1 2 1\<rparr>\<rparr>))"

definition farObjects :: "interactorRef \<Rightarrow> interactor" where
  "farObjects r =
     (if r = 0 then leftHand\<lparr>startPoint := Some (Vec3 (- 75) 0 10)\<rparr>
      else if r = 1 then rightHand\<lparr>startPoint := Some (Vec3 75 0 10)\<rparr>
      else mobileController)"

definition farHost :: host where
  "farHost = sampleHost\<lparr>interactorObject := farObjects, getTime := 1 / 60\<rparr>"

text \<open>The two-handed scene on a frame where both hands are at the same point.\<close>

definition coincidentObjects :: "interactorRef \<Rightarrow> interactor" where
  "coincidentObjects r =
     (if r = 0 then leftHand\<lparr>startPoint := Some (Vec3 0 0 10)\<rparr>
      else if r = 1 then rightHand\<lparr>startPoint := Some (Vec3 0 0 10)\<rparr>
      else mobileController)"

definition coincidentHost :: host where
  "coincidentHost = sampleHost\<lparr>interactorObject := coincidentObjects, getTime := 1 / 60\<rparr>"

section \<open>Properties of Interactable\<close>

lemma hoverEnter_alignedStep:
  "alignedStep (hoveringInteractor this, snd (hoverEnter eventArgs this),
     hoveringInteractor (fst (hoverEnter eventArgs this)))
   = (\<not> (hoveringInteractor this = InputType_None
          \<and> inputType (argInteractor eventArgs) = InputType_None))"
  by (simp add: hoverEnter_def InputType_None_def or_eq_0_iff)

lemma hoverExit_alignedStep:
  "alignedStep (hoveringInteractor this, snd (hoverExit eventArgs this),
     hoveringInteractor (fst (hoverExit eventArgs this)))
   = (hoveringInteractor this \<noteq> InputType_None)"
  by (auto simp: hoverExit_def InputType_None_def)

text \<open>
  C5. In every state of the trigger bitmask, also with several interactor bits set,
  \<open>triggerCanceled\<close> resets \<open>triggeringInteractor\<close> to \<open>None\<close> as a whole and leaves the
  hover bitmask alone; it publishes \<open>onTriggerCanceled\<close> first and then evaluates drag
  end, which publishes \<open>onDragEnd\<close> exactly when the calling interactor's
  \<open>previousDragVector\<close> is not null.
\<close>

theorem triggerCanceled_resets_whole_bitmask:
  "triggeringInteractor (fst (triggerCanceled eventArgs this)) = InputType_None
   \<and> hoveringInteractor (fst (triggerCanceled eventArgs this)) = hoveringInteractor this
   \<and> snd (triggerCanceled eventArgs this) =
       [OnTriggerCanceled eventArgs, LogV ''InteractionEvent : On Trigger Canceled Event'']
       @ dragEnd eventArgs
   \<and> ((\<exists>v p. OnDragEnd eventArgs v p \<in> set (snd (triggerCanceled eventArgs this)))
        = (previousDragVector (argInteractor eventArgs) \<noteq> None))"
  by (cases "previousDragVector (argInteractor eventArgs)")
     (simp_all add: triggerCanceled_def dragEnd_def)

theorem triggerCanceled_resets_whole_bitmask_witness:
  "triggeringInteractor
     (fst (triggerCanceled sampleDraggingArgs
        (idleInteractable\<lparr>triggeringInteractor := InputType_LeftHand OR InputType_RightHand\<rparr>)))
     = InputType_None
   \<and> (InputType_LeftHand OR InputType_RightHand) \<noteq> InputType_None
   \<and> snd (triggerCanceled sampleDraggingArgs
        (idleInteractable\<lparr>triggeringInteractor := InputType_LeftHand OR InputType_RightHand\<rparr>))
     = [OnTriggerCanceled sampleDraggingArgs,
        LogV ''InteractionEvent : On Trigger Canceled Event'',
        OnDragEnd sampleDraggingArgs (Vec3 1 0 0) None,
        LogV ''InteractionEvent : On Drag End Event'']"
  using triggerCanceled_resets_whole_bitmask
    [of sampleDraggingArgs
        "idleInteractable\<lparr>triggeringInteractor := InputType_LeftHand OR InputType_RightHand\<rparr>"]
  by (simp add: dragEnd_def sampleDraggingArgs_def sampleInteractor_def
      InputType_None_def InputType_LeftHand_def InputType_RightHand_def)

text \<open>
  C1, as stated, fails: a \<open>hoverExit\<close> that arrives while nothing hovers clears no bit,
  finds the bitmask \<open>None\<close> and publishes the aggregate \<open>onHoverExit\<close>, although the
  bitmask made no transition.
\<close>

theorem hoverExit_while_idle_counterexample:
  "runHover idleInteractable [HoverExit sampleArgs] =
     [(InputType_None,
       [OnInteractorHoverExit sampleArgs,
        LogV ''InteractionEvent : On Interactor Hover Exit Event'',
        OnHoverExit sampleArgs,
        LogV ''InteractionEvent : On Hover Exit Event''],
       InputType_None)]
   \<and> \<not> list_all alignedStep (runHover idleInteractable [HoverExit sampleArgs])"
  by (simp add: hoverExit_def idleInteractable_def InputType_None_def)

text \<open>
  C1, amended. For every sequence of \<open>hoverEnter\<close> and \<open>hoverExit\<close> calls, from every
  state and with any input types, the aggregate events are aligned with the transitions
  of the hover bitmask at every call (\<open>onHoverEnter\<close> once at each transition from
  \<open>None\<close> to non-\<open>None\<close>, \<open>onHoverExit\<close> once at each transition from non-\<open>None\<close>
  to \<open>None\<close>, and neither anywhere else) exactly when no \<open>hoverExit\<close> arrives while
  the bitmask is \<open>None\<close> and no \<open>hoverEnter\<close> of input type \<open>None\<close> arrives while the
  bitmask is \<open>None\<close>.
\<close>

theorem aggregate_hover_events_follow_transitions:
  "list_all alignedStep (runHover this cs) = pairedHoverCalls this cs"
proof (induction cs arbitrary: this)
  case Nil
  show ?case by simp
next
  case (Cons c cs)
  show ?case
  proof (cases c)
    case (HoverEnter eventArgs)
    have "alignedStep (hoveringInteractor this, snd (hoverEnter eventArgs this),
            hoveringInteractor (fst (hoverEnter eventArgs this)))
          = (\<not> (hoveringInteractor this = InputType_None
                 \<and> inputType (argInteractor eventArgs) = InputType_None))"
      by (rule hoverEnter_alignedStep)
    with HoverEnter Cons.IH show ?thesis by simp
  next
    case (HoverExit eventArgs)
    have "alignedStep (hoveringInteractor this, snd (hoverExit eventArgs this),
            hoveringInteractor (fst (hoverExit eventArgs this)))
          = (hoveringInteractor this \<noteq> InputType_None)"
      by (rule hoverExit_alignedStep)
    with HoverExit Cons.IH show ?thesis by simp
  qed
qed

theorem aggregate_hover_events_follow_transitions_witness:
  "pairedHoverCalls idleInteractable
     [HoverEnter sampleArgs, HoverEnter sampleRightArgs, HoverExit sampleArgs,
      HoverExit sampleRightArgs]
   \<and> list_all alignedStep (runHover idleInteractable
     [HoverEnter sampleArgs, HoverEnter sampleRightArgs, HoverExit sampleArgs,
      HoverExit sampleRightArgs])"
  using aggregate_hover_events_follow_transitions
    [of idleInteractable
        "[HoverEnter sampleArgs, HoverEnter sampleRightArgs, HoverExit sampleArgs,
          HoverExit sampleRightArgs]"]
  by (simp add: hoverEnter_def hoverExit_def idleInteractable_def sampleArgs_def
      sampleRightArgs_def sampleInteractor_def
      InputType_None_def InputType_LeftHand_def InputType_RightHand_def)




section \<open>Properties of InteractableManipulation\<close>



lemma getDualInteractorDirection_keeps:
  "enabled (fst (snd (getDualInteractorDirection h i0 i1 this))) = enabled this"
  "enableTranslation (fst (snd (getDualInteractorDirection h i0 i1 this))) = enableTranslation this"
  "enableRotation (fst (snd (getDualInteractorDirection h i0 i1 this))) = enableRotation this"
  "enableScale (fst (snd (getDualInteractorDirection h i0 i1 this))) = enableScale this"
  "interactors (fst (snd (getDualInteractorDirection h i0 i1 this))) = interactors this"
  "manipulateRoot (fst (snd (getDualInteractorDirection h i0 i1 this))) = manipulateRoot this"
  "startTransform (fst (snd (getDualInteractorDirection h i0 i1 this))) = startTransform this"
  "translateFilter (fst (snd (getDualInteractorDirection h i0 i1 this))) = translateFilter this"
  "rotationFilter (fst (snd (getDualInteractorDirection h i0 i1 this))) = rotationFilter this"
  "scaleFilter (fst (snd (getDualInteractorDirection h i0 i1 this))) = scaleFilter this"
  by (simp_all add: getDualInteractorDirection_def Let_def split: option.split)


lemma updateStartValues_keeps:
  "enabled (fst (updateStartValues h this)) = enabled this"
  "enableTranslation (fst (updateStartValues h this)) = enableTranslation this"
  "enableRotation (fst (updateStartValues h this)) = enableRotation this"
  "enableScale (fst (updateStartValues h this)) = enableScale this"
  "interactors (fst (updateStartValues h this)) = interactors this"
  "manipulateRoot (fst (updateStartValues h this)) = manipulateRoot this"
  by (simp_all add: updateStartValues_def Let_def split_beta getDualInteractorDirection_keeps
      split: option.split)






lemma onTriggerToggle_manipulating:
  assumes "enabled this" and "canTranslate this \<or> canRotate this \<or> canScale this"
    and "getTriggeringInteractors h itb \<noteq> []"
  shows "onTriggerToggle h itb this =
     (fst (updateStartValues h (this\<lparr>interactors := getTriggeringInteractors h itb\<rparr>)),
      (if interactors this \<noteq> []
          \<and> length (interactors this) \<noteq> length (getTriggeringInteractors h itb)
       then invokeEvents h (Some End) (Some End)
              (if length (interactors this) = 2 then Some End else None) (Some End) this
            @ [LogVerbose ''InteractionEvent : On Manipulation End Event'']
       else [])
      @ snd (updateStartValues h (this\<lparr>interactors := getTriggeringInteractors h itb\<rparr>))
      @ invokeEvents h (Some Start) (Some Start)
          (if length (getTriggeringInteractors h itb) = 2 then Some Start else None)
          (Some Start)
          (fst (updateStartValues h (this\<lparr>interactors := getTriggeringInteractors h itb\<rparr>)))
      @ [LogVerbose ''InteractionEvent : On Manipulation Start Event''])"
  using assms by (simp add: onTriggerToggle_def Let_def split_beta)

lemma onTriggerToggle_interactors:
  assumes "enabled this" and "canTranslate this \<or> canRotate this \<or> canScale this"
  shows "interactors (fst (onTriggerToggle h itb this)) = getTriggeringInteractors h itb"
  using assms
  by (cases "canTranslate this"; cases "canRotate this";
      simp add: onTriggerToggle_def Let_def split_beta updateStartValues_keeps)



lemma sample_triggering:
  "getTriggeringInteractors sampleHost (triggeredBy InputType_LeftHand) = [0]"
  "getTriggeringInteractors sampleHost (triggeredBy (InputType_LeftHand OR InputType_RightHand))
     = [0, 1]"
  "getTriggeringInteractors sampleHost
     (triggeredBy (InputType_LeftHand OR InputType_RightHand OR InputType_Mobile)) = [0, 1, 2]"
  by (simp_all add: getTriggeringInteractors_def sampleHost_def sampleObjects_def
      triggeredBy_def idleInteractable_def leftHand_def rightHand_def mobileController_def
      sampleInteractor_def InputType_LeftHand_def InputType_RightHand_def InputType_Mobile_def)

lemma sample_capabilities:
  "enabled (sampleManipulation\<lparr>interactors := rs\<rparr>)"
  "canTranslate (sampleManipulation\<lparr>interactors := rs\<rparr>)"
  "canRotate (sampleManipulation\<lparr>interactors := rs\<rparr>)"
  "canScale (sampleManipulation\<lparr>interactors := rs\<rparr>)"
  by (simp_all add: sampleManipulation_def canTranslate_def canRotate_def canScale_def)

text \<open>
  C9, as stated, fails: the list of interactors has no upper bound. With the left hand,
  the right hand and the mobile controller all triggering the Interactable, the toggle
  handler stores a list of three.
\<close>

theorem three_triggering_interactors_counterexample:
  "interactors (fst (onTriggerToggle sampleHost
      (triggeredBy (InputType_LeftHand OR InputType_RightHand OR InputType_Mobile))
      (sampleManipulation\<lparr>interactors := []\<rparr>))) = [0, 1, 2]"
  by (simp add: onTriggerToggle_interactors sample_capabilities sample_triggering)

text \<open>
  C9, amended. When the toggle handler runs (the component is enabled and one of its
  capabilities is on), the list of interactors becomes the set of interactors that are
  triggering the Interactable at that moment, however many they are, so a later toggle
  with a supported count replaces an unsupported list. The update handler applies a
  solver only at length 1 or 2: at every other length, zero included, it logs the warning
  with the count, publishes no event and leaves the component as it was.
\<close>

theorem interactors_follow_the_triggering_set:
  assumes "enabled this" and "canTranslate this \<or> canRotate this \<or> canScale this"
  shows "interactors (fst (onTriggerToggle h itb this)) = getTriggeringInteractors h itb
         \<and> (length (interactors this) \<noteq> 1 \<and> length (interactors this) \<noteq> 2 \<longrightarrow>
              onTriggerUpdate h this =
                Inr (this,
                     [LogWarning ''interactors found for onTriggerUpdate. This is not supported.''
                        (length (interactors this))]))"
proof
  show "interactors (fst (onTriggerToggle h itb this)) = getTriggeringInteractors h itb"
    using assms by (rule onTriggerToggle_interactors)
next
  show "length (interactors this) \<noteq> 1 \<and> length (interactors this) \<noteq> 2 \<longrightarrow>
          onTriggerUpdate h this =
            Inr (this,
                 [LogWarning ''interactors found for onTriggerUpdate. This is not supported.''
                    (length (interactors this))])"
    using assms
    by (cases "canTranslate this"; cases "canRotate this"; simp add: onTriggerUpdate_def)
qed

theorem interactors_follow_the_triggering_set_witness:
  "enabled (sampleManipulation\<lparr>interactors := [0, 1, 2]\<rparr>)
   \<and> canTranslate (sampleManipulation\<lparr>interactors := [0, 1, 2]\<rparr>)
   \<and> onTriggerUpdate sampleHost (sampleManipulation\<lparr>interactors := [0, 1, 2]\<rparr>) =
       Inr (sampleManipulation\<lparr>interactors := [0, 1, 2]\<rparr>,
            [LogWarning ''interactors found for onTriggerUpdate. This is not supported.'' 3])
   \<and> interactors (fst (onTriggerToggle sampleHost (triggeredBy InputType_LeftHand)
        (sampleManipulation\<lparr>interactors := [0, 1, 2]\<rparr>))) = [0]"
  using interactors_follow_the_triggering_set
    [of "sampleManipulation\<lparr>interactors := [0, 1, 2]\<rparr>" sampleHost
        "triggeredBy InputType_LeftHand"]
  by (simp add: sample_capabilities sample_triggering)






lemma resultScale_setScale:
  "resultScale (setScale h s f this) =
     (if \<not> canScale this then Inr (localScale (manipulateRoot this))
      else case clampUniformScale s
                  (uniformScale (scale (originalLocalTransform this)) (minimumScaleFactor this))
                  (uniformScale (scale (originalLocalTransform this)) (maximumScaleFactor this)) of
             Inl e \<Rightarrow> Inl e
           | Inr (finalScale, fresh) \<Rightarrow>
               Inr (if f
                    then fst (filterSample (blendVec3 h) vec3_zero (scaleFilter this) finalScale
                                (getTime h))
                    else finalScale))"
  by (simp add: resultScale_def setScale_def Let_def split_beta split: sum.split)

lemma resultScale_bind:
  "resultScale (case res of Inl e \<Rightarrow> Inl e | Inr (this, events) \<Rightarrow> Inr (this, g this events))
   = resultScale res"
  by (simp add: resultScale_def split: sum.split)

lemma updateRotation_keeps:
  "enableScale (updateRotation h q f this) = enableScale this"
  "enableRotation (updateRotation h q f this) = enableRotation this"
  "enableTranslation (updateRotation h q f this) = enableTranslation this"
  "useFilter (updateRotation h q f this) = useFilter this"
  "initialInteractorDistance (updateRotation h q f this) = initialInteractorDistance this"
  "initialObjectScale (updateRotation h q f this) = initialObjectScale this"
  "originalLocalTransform (updateRotation h q f this) = originalLocalTransform this"
  "minimumScaleFactor (updateRotation h q f this) = minimumScaleFactor this"
  "maximumScaleFactor (updateRotation h q f this) = maximumScaleFactor this"
  "scaleFilter (updateRotation h q f this) = scaleFilter this"
  by (simp_all add: updateRotation_def split_beta)

lemma updatePosition_keeps:
  "enableScale (updatePosition h p f this) = enableScale this"
  "enableRotation (updatePosition h p f this) = enableRotation this"
  "enableTranslation (updatePosition h p f this) = enableTranslation this"
  "useFilter (updatePosition h p f this) = useFilter this"
  "initialInteractorDistance (updatePosition h p f this) = initialInteractorDistance this"
  "initialObjectScale (updatePosition h p f this) = initialObjectScale this"
  "originalLocalTransform (updatePosition h p f this) = originalLocalTransform this"
  "minimumScaleFactor (updatePosition h p f this) = minimumScaleFactor this"
  "maximumScaleFactor (updatePosition h p f this) = maximumScaleFactor this"
  "scaleFilter (updatePosition h p f this) = scaleFilter this"
  by (simp_all add: updatePosition_def Let_def split_beta)

lemma getDualInteractorDirection_keeps_scale:
  "useFilter (fst (snd (getDualInteractorDirection h i0 i1 this))) = useFilter this"
  "initialInteractorDistance (fst (snd (getDualInteractorDirection h i0 i1 this)))
     = initialInteractorDistance this"
  "initialObjectScale (fst (snd (getDualInteractorDirection h i0 i1 this)))
     = initialObjectScale this"
  "originalLocalTransform (fst (snd (getDualInteractorDirection h i0 i1 this)))
     = originalLocalTransform this"
  "minimumScaleFactor (fst (snd (getDualInteractorDirection h i0 i1 this)))
     = minimumScaleFactor this"
  "maximumScaleFactor (fst (snd (getDualInteractorDirection h i0 i1 this)))
     = maximumScaleFactor this"
  by (simp_all add: getDualInteractorDirection_def Let_def split: option.split)

lemma getDualInteractorDirection_Some:
  "startPoint i0 = Some p0 \<Longrightarrow> startPoint i1 = Some p1 \<Longrightarrow>
   fst (getDualInteractorDirection h i0 i1 this) \<noteq> None"
  by (simp add: getDualInteractorDirection_def Let_def)

lemma localScale_updateRotation:
  "localScale (manipulateRoot (updateRotation h q f this)) = localScale (manipulateRoot this)"
  by (simp add: updateRotation_def split_beta)

lemma localScale_updatePosition:
  "localScale (manipulateRoot (updatePosition h p f this)) = localScale (manipulateRoot this)"
  by (simp add: updatePosition_def Let_def split_beta)

lemma dual_resultScale:
  assumes "startPoint (interactorObject h r0) = Some p0"
    and "startPoint (interactorObject h r1) = Some p1"
    and "canScale this" and "initialInteractorDistance this \<noteq> 0"
  shows "resultScale (dualInteractorsTransform h [r0, r1] this) =
         resultScale (setScale h
           (uniformScale (initialObjectScale this)
              (1 + (vec3_distance p0 p1 - initialInteractorDistance this)
                   / initialInteractorDistance this))
           (useFilter this) this)"
proof -
  obtain d where d: "fst (getDualInteractorDirection h (interactorObject h r0)
                       (interactorObject h r1) this) = Some d"
    using getDualInteractorDirection_Some [OF assms(1,2)] by blast
  show ?thesis
    using assms d
    by (simp add: dualInteractorsTransform_def Let_def split_beta resultScale_bind
        resultScale_setScale canScale_def canRotate_def
        updateRotation_keeps updatePosition_keeps getDualInteractorDirection_keeps
        getDualInteractorDirection_keeps_scale split: sum.split)
qed


lemma snapshotRoot_fields:
  "position (snapshotRoot h tr) = worldPosition tr"
  "rotation (snapshotRoot h tr) = worldRotation tr"
  "scale (snapshotRoot h tr) = getWorldScale h tr"
  by (simp_all add: snapshotRoot_def)

lemma getDualInteractorDirection_all_axes:
  assumes "startPoint i0 = Some p0" and "startPoint i1 = Some p1"
    and "rotationAxisOf this = AxisAll" and "currentRotationSign this = 0"
  shows "getDualInteractorDirection h i0 i1 this =
     (Some (limitQuatRotation h this
        (quat_multiply (lookAt h (vec3_sub p1 p0) (currentUp this)) (YAW_NEGATIVE_90 h))),
      this, [])"
  using assms by (simp add: getDualInteractorDirection_def Let_def)

lemma updateStartValues_dual_direct:
  assumes "interactors this = [r0, r1]"
    and "isInteractorValid (interactorObject h r0)"
    and "isInteractorValid (interactorObject h r1)"
    and "activeTargetingMode (interactorObject h r0) = Direct"
    and "startPoint (interactorObject h r0) = Some p0"
    and "startPoint (interactorObject h r1) = Some p1"
    and "rotationAxisOf this = AxisAll"
  shows "updateStartValues h this =
     (this\<lparr>mobileStretch := 0, smoothedStretch := 0, startStretchInteractorDistance := 0,
           translateFilter := filterReset, rotationFilter := filterReset,
           scaleFilter := filterReset,
           startTransform := snapshotRoot h (manipulateRoot this),
           cachedTargetingMode := Direct, currentUp := vec3_up, currentRotationSign := 0,
           initialInteractorDistance := vec3_distance p0 p1,
           initialObjectScale := localScale (manipulateRoot this),
           offsetRotation :=
             quat_multiply
               (quat_invert (limitQuatRotation h this
                  (quat_multiply (lookAt h (vec3_sub p1 p0) vec3_up) (YAW_NEGATIVE_90 h))))
               (worldRotation (manipulateRoot this)),
           offsetPosition :=
             vec3_sub (worldPosition (manipulateRoot this))
               (uniformScale (vec3_add p0 p1) 0.5)\<rparr>,
      [])"
proof -
  let ?this1 = "this\<lparr>mobileStretch := 0, smoothedStretch := 0,
                    startStretchInteractorDistance := 0,
                    translateFilter := filterReset, rotationFilter := filterReset,
                    scaleFilter := filterReset,
                    startTransform := snapshotRoot h (manipulateRoot this),
                    cachedTargetingMode := Direct, currentUp := vec3_up,
                    currentRotationSign := 0\<rparr>"
  have g: "getDualInteractorDirection h (interactorObject h r0) (interactorObject h r1) ?this1 =
     (Some (limitQuatRotation h ?this1
        (quat_multiply (lookAt h (vec3_sub p1 p0) (currentUp ?this1)) (YAW_NEGATIVE_90 h))),
      ?this1, [])"
    by (rule getDualInteractorDirection_all_axes) (simp_all add: assms)
  have l: "limitQuatRotation h ?this1 = limitQuatRotation h this"
    by (simp add: limitQuatRotation_def canRotate_def fun_eq_iff)
  show ?thesis
    using assms(1-6)
    by (simp add: updateStartValues_def Let_def g l nullish_def snapshotRoot_fields)
qed


lemma vec3_distance_along_x: "vec3_distance (Vec3 a y z) (Vec3 b y z) = \<bar>a - b\<bar>"
  by (simp add: vec3_distance_def vec3_length_def vec3_dot_def vec3_sub_def)

lemma sample_objects:
  "interactorObject sampleHost 0 = leftHand"
  "interactorObject sampleHost (Suc 0) = rightHand"
  "isInteractorValid leftHand" "isInteractorValid rightHand"
  "activeTargetingMode leftHand = Direct"
  "startPoint leftHand = Some (Vec3 (- 5) 0 10)"
  "startPoint rightHand = Some (Vec3 5 0 10)"
  by (simp_all add: sampleHost_def sampleObjects_def leftHand_def rightHand_def
      sampleInteractor_def isInteractorValid_def)

lemma sample_capabilities_idle:
  "enabled sampleManipulation" "canTranslate sampleManipulation"
  "canRotate sampleManipulation" "canScale sampleManipulation"
  by (simp_all add: sampleManipulation_def canTranslate_def canRotate_def canScale_def)

lemma dualGrabbed_eval:
  "dualGrabbed =
     sampleManipulation\<lparr>interactors := [0, 1],
       startTransform := snapshotRoot sampleHost sampleRoot,
       cachedTargetingMode := Direct, currentUp := vec3_up,
       initialInteractorDistance := 10, initialObjectScale := Vec3 1 1 1,
       offsetRotation := Quat 0 0 1 0, offsetPosition := Vec3 1 2 0\<rparr>"
proof -
  let ?two = "sampleManipulation\<lparr>interactors := [0, 1]\<rparr>"
  have "dualGrabbed = fst (updateStartValues sampleHost ?two)"
    unfolding dualGrabbed_def
    using onTriggerToggle_manipulating
      [of sampleManipulation sampleHost
          "triggeredBy (InputType_LeftHand OR InputType_RightHand)"]
    by (simp add: sample_capabilities_idle sample_triggering)
  also have "updateStartValues sampleHost ?two = 
     (?two\<lparr>mobileStretch := 0, smoothedStretch := 0, startStretchInteractorDistance := 0,
           translateFilter := filterReset, rotationFilter := filterReset,
           scaleFilter := filterReset,
           startTransform := snapshotRoot sampleHost (manipulateRoot ?two),
           cachedTargetingMode := Direct, currentUp := vec3_up, currentRotationSign := 0,
           initialInteractorDistance := vec3_distance (Vec3 (- 5) 0 10) (Vec3 5 0 10),
           initialObjectScale := localScale (manipulateRoot ?two),
           offsetRotation :=
             quat_multiply
               (quat_invert (limitQuatRotation sampleHost ?two
                  (quat_multiply (lookAt sampleHost (vec3_sub (Vec3 5 0 10) (Vec3 (- 5) 0 10)) vec3_up)
                     (YAW_NEGATIVE_90 sampleHost))))
               (worldRotation (manipulateRoot ?two)),
           offsetPosition :=
             vec3_sub (worldPosition (manipulateRoot ?two))
               (uniformScale (vec3_add (Vec3 (- 5) 0 10) (Vec3 5 0 10)) 0.5)\<rparr>,
      [])"
    by (rule updateStartValues_dual_direct [where ?r0.0 = 0 and ?r1.0 = 1])
       (simp_all add: sample_objects, simp add: sampleManipulation_def)
  finally show ?thesis
    by (simp add: vec3_distance_along_x limitQuatRotation_def YAW_NEGATIVE_90_def
        sampleHost_def sampleManipulation_def sampleRoot_def filterReset_def
        vec3_add_def vec3_sub_def uniformScale_def quat_multiply_def quat_invert_def
        quatIdentity_def vec3_zero_def snapshotRoot_def)
qed


lemma lost_objects:
  "interactorObject lostOrientationHost 0 =
     leftHand\<lparr>startPoint := Some (Vec3 (- 10) 3 10), orientation := None\<rparr>"
  "interactorObject lostOrientationHost (Suc 0) =
     rightHand\<lparr>startPoint := Some (Vec3 10 3 10)\<rparr>"
  by (simp_all add: lostOrientationHost_def movedHost_def movedObjects_def)

lemma sample_engine:
  "lookAt sampleHost = (\<lambda>forward up. quatIdentity)"
  "toEulerAngles sampleHost = (\<lambda>q. Vec3 0 0 0)"
  "fromEulerVec sampleHost = (\<lambda>e. quatIdentity)"
  "localToWorldScale sampleHost = (\<lambda>s. s)"
  by (simp_all add: sampleHost_def)

lemma lost_engine:
  "lookAt lostOrientationHost = (\<lambda>forward up. quatIdentity)"
  "toEulerAngles lostOrientationHost = (\<lambda>q. Vec3 0 0 0)"
  "fromEulerVec lostOrientationHost = (\<lambda>e. quatIdentity)"
  "getTime lostOrientationHost = 1 / 60"
  "localToWorldScale lostOrientationHost = (\<lambda>s. s)"
  by (simp_all add: lostOrientationHost_def movedHost_def sampleHost_def)

lemma lost_fields:
  "startPoint (interactorObject lostOrientationHost 0) = Some (Vec3 (- 10) 3 10)"
  "startPoint (interactorObject lostOrientationHost (Suc 0)) = Some (Vec3 10 3 10)"
  "orientation (interactorObject lostOrientationHost 0) = None"
  "isInteractorValid (interactorObject lostOrientationHost 0) = False"
  "isInteractorValid (interactorObject lostOrientationHost (Suc 0)) = True"
  by (simp_all add: lost_objects leftHand_def rightHand_def sampleInteractor_def
      isInteractorValid_def)

lemma lost_direction:
  "getDualInteractorDirection lostOrientationHost
     (interactorObject lostOrientationHost 0) (interactorObject lostOrientationHost (Suc 0))
     dualGrabbed = (Some quatIdentity, dualGrabbed, [])"
proof -
  have "getDualInteractorDirection lostOrientationHost
     (interactorObject lostOrientationHost 0) (interactorObject lostOrientationHost (Suc 0))
     dualGrabbed =
     (Some (limitQuatRotation lostOrientationHost dualGrabbed
        (quat_multiply (lookAt lostOrientationHost
            (vec3_sub (Vec3 10 3 10) (Vec3 (- 10) 3 10)) (currentUp dualGrabbed))
           (YAW_NEGATIVE_90 lostOrientationHost))),
      dualGrabbed, [])"
    by (rule getDualInteractorDirection_all_axes)
       (simp_all add: lost_objects dualGrabbed_eval sampleManipulation_def)
  then show ?thesis
    by (simp add: limitQuatRotation_def lost_engine)
qed

lemma lost_update:
  "dualInteractorsTransform lostOrientationHost [0, 1] dualGrabbed =
     Inr (dualGrabbed
            \<lparr>rotationFilter := Some (Quat 0 0 1 0, quatIdentity, 1 / 60),
              translateFilter := Some (Vec3 1 5 10, vec3_zero, 1 / 60),
              scaleFilter := Some (Vec3 2 2 2, vec3_zero, 1 / 60),
              manipulateRoot :=
                \<lparr> worldPosition = Vec3 1 5 10, worldRotation = Quat 0 0 1 0,
                  localScale = Vec3 2 2 2 \<rparr>\<rparr>,
          [LogError ''There should be two valid interactors for dualInteractorsTransform'',
           OnScale Update
             \<lparr> scaleInteractors = [0, 1], startWorldScale = Vec3 1 1 1,
               currentWorldScale = Vec3 2 2 2 \<rparr>])"
  apply (simp add: dualInteractorsTransform_def lost_direction lost_fields Let_def)
  apply (simp add: dualGrabbed_eval sampleManipulation_def canRotate_def canScale_def
      updateRotation_def updatePosition_def filterSample_def lost_engine sample_engine
      quat_multiply_def quat_invert_def quatIdentity_def multiplyVec3_def sampleRoot_def
      snapshotRoot_def vec3_add_def uniformScale_def vec3_distance_along_x
      setScale_def clampUniformScale_def jsDivide_def getWorldScale_def vec3_zero_def Let_def)
  done


text \<open>
  The single-interactor solver returns after its validity test, and the dual solver
  returns when a start point is null: in both cases nothing is updated.
\<close>

lemma single_update_skips_invalid:
  "\<not> isInteractorValid i \<Longrightarrow>
   singleInteractorTransform h i this = (this, [LogError ''Interactor must be valid''])"
  by (simp add: singleInteractorTransform_def)

lemma dual_update_skips_without_start_point:
  "startPoint (interactorObject h r0) = None \<or> startPoint (interactorObject h r1) = None \<Longrightarrow>
   dualInteractorsTransform h [r0, r1] this =
     Inr (this,
          [LogError ''There should be two valid interactors for dualInteractorsTransform'',
           LogError ''Both start points should be valid for dualInteractorsTransform''])"
  by (auto simp: dualInteractorsTransform_def isInteractorValid_def Let_def
      split: option.splits)

text \<open>
  C8, at the failing input. Both hands hold the object; on this frame the left hand's
  snapshot has a start point but no orientation, so it is not valid. The dual solver logs
  the error and goes on: position, rotation filter and scale of the object are all
  updated, and the update events are published.
\<close>

theorem dual_update_runs_on_invalid_interactor:
  "orientation (interactorObject lostOrientationHost 0) = None
   \<and> isInteractorValid (interactorObject lostOrientationHost 0) = False
   \<and> manipulateRoot dualGrabbed =
       \<lparr> worldPosition = Vec3 1 2 10, worldRotation = Quat 0 0 1 0, localScale = Vec3 1 1 1 \<rparr>
   \<and> onTriggerUpdate lostOrientationHost dualGrabbed =
       Inr (dualGrabbed
              \<lparr>rotationFilter := Some (Quat 0 0 1 0, quatIdentity, 1 / 60),
                translateFilter := Some (Vec3 1 5 10, vec3_zero, 1 / 60),
                scaleFilter := Some (Vec3 2 2 2, vec3_zero, 1 / 60),
                manipulateRoot :=
                  \<lparr> worldPosition = Vec3 1 5 10, worldRotation = Quat 0 0 1 0,
                    localScale = Vec3 2 2 2 \<rparr>\<rparr>,
            [LogError ''There should be two valid interactors for dualInteractorsTransform'',
             OnScale Update
               \<lparr> scaleInteractors = [0, 1], startWorldScale = Vec3 1 1 1,
                 currentWorldScale = Vec3 2 2 2 \<rparr>,
             OnTranslation Update
               \<lparr> translateInteractors = [0, 1], startPosition = Vec3 1 2 10,
                 currentPosition = Vec3 1 5 10 \<rparr>,
             OnRotation Update
               \<lparr> rotationInteractors = [0, 1], startRotation = Quat 0 0 1 0,
                 currentRotation = Quat 0 0 1 0 \<rparr>,
             OnManipulation Update
               \<lparr> transformInteractors = [0, 1],
                 startTransformMatrix = Compose (Vec3 1 2 10) (Quat 0 0 1 0) (Vec3 1 1 1),
                 currentTransformMatrix =
                   Compose (Vec3 1 5 10) (Quat 0 0 1 0) (Vec3 2 2 2) \<rparr>])"
proof -
  have fields: "enabled dualGrabbed" "canTranslate dualGrabbed" "interactors dualGrabbed = [0, 1]"
    by (simp_all add: dualGrabbed_eval sampleManipulation_def canTranslate_def)
  have root: "manipulateRoot dualGrabbed =
       \<lparr> worldPosition = Vec3 1 2 10, worldRotation = Quat 0 0 1 0, localScale = Vec3 1 1 1 \<rparr>"
    by (simp add: dualGrabbed_eval sampleManipulation_def sampleRoot_def)
  have run: "onTriggerUpdate lostOrientationHost dualGrabbed =
     (case dualInteractorsTransform lostOrientationHost [0, 1] dualGrabbed of
        Inl e \<Rightarrow> Inl e
      | Inr (this1, events) \<Rightarrow>
          Inr (this1,
               events @ invokeEvents lostOrientationHost (Some Update) (Some Update) None
                          (Some Update) this1))"
    by (simp add: onTriggerUpdate_def fields)
  show ?thesis
    unfolding run lost_update
    by (simp add: lost_fields root invokeEvents_def canTranslate_def canRotate_def canScale_def
        dualGrabbed_eval sampleManipulation_def snapshotRoot_def getWorldTransform_def
        getWorldScale_def sampleRoot_def lost_engine sample_engine)
qed

theorem dual_update_runs_on_invalid_interactor_witness:
  "isInteractorValid (interactorObject lostOrientationHost 0) = False
   \<and> worldPosition (manipulateRoot dualGrabbed) = Vec3 1 2 10
   \<and> localScale (manipulateRoot dualGrabbed) = Vec3 1 1 1
   \<and> resultScale (onTriggerUpdate lostOrientationHost dualGrabbed) = Inr (Vec3 2 2 2)"
  using dual_update_runs_on_invalid_interactor by (simp add: resultScale_def)




lemma resultScale_onTriggerUpdate_dual:
  assumes "enabled this" and "canScale this" and "interactors this = [r0, r1]"
  shows "resultScale (onTriggerUpdate h this) =
         resultScale (dualInteractorsTransform h [r0, r1] this)"
  using assms by (simp add: onTriggerUpdate_def resultScale_bind)

lemma stretchedGrabbed_eval:
  "stretchedGrabbed =
     sampleManipulation\<lparr>manipulateRoot := sampleRoot\<lparr>localScale := Vec3 1 2 1\<rparr>,
       interactors := [0, 1],
       startTransform := snapshotRoot sampleHost (sampleRoot\<lparr>localScale := Vec3 1 2 1\<rparr>),
       cachedTargetingMode := Direct, currentUp := vec3_up,
       initialInteractorDistance := 10, initialObjectScale := Vec3 1 2 1,
       offsetRotation := Quat 0 0 1 0, offsetPosition := Vec3 1 2 0\<rparr>"
proof -
  let ?idle = "sampleManipulation\<lparr>manipulateRoot := sampleRoot\<lparr>localScale := Vec3 1 2 1\<rparr>\<rparr>"
  let ?two = "?idle\<lparr>interactors := [0, 1]\<rparr>"
  have caps: "enabled ?idle" "canTranslate ?idle"
    by (simp_all add: sampleManipulation_def canTranslate_def)
  have "stretchedGrabbed = fst (updateStartValues sampleHost ?two)"
    unfolding stretchedGrabbed_def
    using onTriggerToggle_manipulating
      [of ?idle sampleHost "triggeredBy (InputType_LeftHand OR InputType_RightHand)"]
    by (simp add: caps sample_triggering)
  also have "updateStartValues sampleHost ?two =
     (?two\<lparr>mobileStretch := 0, smoothedStretch := 0, startStretchInteractorDistance := 0,
           translateFilter := filterReset, rotationFilter := filterReset,
           scaleFilter := filterReset,
           startTransform := snapshotRoot sampleHost (manipulateRoot ?two),
           cachedTargetingMode := Direct, currentUp := vec3_up, currentRotationSign := 0,
           initialInteractorDistance := vec3_distance (Vec3 (- 5) 0 10) (Vec3 5 0 10),
           initialObjectScale := localScale (manipulateRoot ?two),
           offsetRotation :=
             quat_multiply
               (quat_invert (limitQuatRotation sampleHost ?two
                  (quat_multiply (lookAt sampleHost (vec3_sub (Vec3 5 0 10) (Vec3 (- 5) 0 10)) vec3_up)
                     (YAW_NEGATIVE_90 sampleHost))))
               (worldRotation (manipulateRoot ?two)),
           offsetPosition :=
             vec3_sub (worldPosition (manipulateRoot ?two))
               (uniformScale (vec3_add (Vec3 (- 5) 0 10) (Vec3 5 0 10)) 0.5)\<rparr>,
      [])"
    by (rule updateStartValues_dual_direct [where ?r0.0 = 0 and ?r1.0 = 1])
       (simp_all add: sample_objects, simp add: sampleManipulation_def)
  finally show ?thesis
    by (simp add: vec3_distance_along_x limitQuatRotation_def YAW_NEGATIVE_90_def
        sampleHost_def sampleManipulation_def sampleRoot_def filterReset_def
        vec3_add_def vec3_sub_def uniformScale_def quat_multiply_def quat_invert_def
        quatIdentity_def vec3_zero_def snapshotRoot_def)
qed

lemma far_fields:
  "startPoint (interactorObject farHost 0) = Some (Vec3 (- 75) 0 10)"
  "startPoint (interactorObject farHost (Suc 0)) = Some (Vec3 75 0 10)"
  by (simp_all add: farHost_def farObjects_def leftHand_def rightHand_def
      sampleInteractor_def)

text \<open>
  C3, at the failing input. The object was created with local scale \<open>(1, 1, 1)\<close>, so its
  scale is to stay within \<open>0.25\<close> and \<open>20\<close> on every axis; another script has stretched
  it to \<open>(1, 2, 1)\<close>. Two hands grab it 10 apart and move 150 apart: the proposed scale
  is \<open>(15, 30, 15)\<close>. \<open>clampUniformScale\<close> takes the smallest of the three ratios to the
  maximum, \<open>0.75\<close>, finds it not above 1 and returns the scale as it is; \<open>setScale\<close>
  applies it, with 30 on the y axis.
\<close>

theorem uniform_clamp_misses_axis_above_maximum:
  "scale (originalLocalTransform stretchedGrabbed) = Vec3 1 1 1
   \<and> minimumScaleFactor stretchedGrabbed = 0.25
   \<and> maximumScaleFactor stretchedGrabbed = 20
   \<and> initialObjectScale stretchedGrabbed = Vec3 1 2 1
   \<and> clampUniformScale (Vec3 15 30 15) (Vec3 0.25 0.25 0.25) (Vec3 20 20 20)
       = Inr (Vec3 15 30 15, False)
   \<and> resultScale (onTriggerUpdate farHost stretchedGrabbed) = Inr (Vec3 15 30 15)"
proof -
  have fields: "enabled stretchedGrabbed" "canScale stretchedGrabbed"
    "interactors stretchedGrabbed = [0, Suc 0]" "initialInteractorDistance stretchedGrabbed \<noteq> 0"
    by (simp_all add: stretchedGrabbed_eval sampleManipulation_def canScale_def)
  have clamped: "clampUniformScale (Vec3 15 30 15) (Vec3 0.25 0.25 0.25) (Vec3 20 20 20)
       = Inr (Vec3 15 30 15, False)"
    by (simp add: clampUniformScale_def jsDivide_def)
  have "resultScale (onTriggerUpdate farHost stretchedGrabbed) =
        resultScale (dualInteractorsTransform farHost [0, Suc 0] stretchedGrabbed)"
    using fields(1-3) by (rule resultScale_onTriggerUpdate_dual)
  also have "\<dots> = resultScale (setScale farHost
           (uniformScale (initialObjectScale stretchedGrabbed)
              (1 + (vec3_distance (Vec3 (- 75) 0 10) (Vec3 75 0 10)
                    - initialInteractorDistance stretchedGrabbed)
                   / initialInteractorDistance stretchedGrabbed))
           (useFilter stretchedGrabbed) stretchedGrabbed)"
    using far_fields fields(2) fields(4) by (rule dual_resultScale)
  also have "\<dots> = Inr (Vec3 15 30 15)"
    by (simp add: resultScale_setScale stretchedGrabbed_eval sampleManipulation_def
        canScale_def vec3_distance_along_x uniformScale_def clampUniformScale_def jsDivide_def
        filterSample_def)
  finally have applied:
    "resultScale (onTriggerUpdate farHost stretchedGrabbed) = Inr (Vec3 15 30 15)" .
  show ?thesis
    using applied clamped
    by (simp add: stretchedGrabbed_eval sampleManipulation_def)
qed

theorem uniform_clamp_misses_axis_above_maximum_witness:
  "resultScale (onTriggerUpdate farHost stretchedGrabbed) = Inr (Vec3 15 30 15)
   \<and> vy (uniformScale (scale (originalLocalTransform stretchedGrabbed))
           (maximumScaleFactor stretchedGrabbed)) = 20
   \<and> vy (Vec3 15 30 15) > 20"
  using uniform_clamp_misses_axis_above_maximum by (simp add: uniformScale_def)

text \<open>
  With both hands at one point the proposed scale is the zero vector; its smallest ratio
  is 0 and the clamp multiplies by \<open>1 / 0\<close>.
\<close>

lemma coincident_hands_leave_the_reals:
  "resultScale (onTriggerUpdate coincidentHost dualGrabbed) = Inl NonFinite"
proof -
  have fields: "enabled dualGrabbed" "canScale dualGrabbed"
    "interactors dualGrabbed = [0, Suc 0]" "initialInteractorDistance dualGrabbed \<noteq> 0"
    by (simp_all add: dualGrabbed_eval sampleManipulation_def canScale_def)
  have points:
    "startPoint (interactorObject coincidentHost 0) = Some (Vec3 0 0 10)"
    "startPoint (interactorObject coincidentHost (Suc 0)) = Some (Vec3 0 0 10)"
    by (simp_all add: coincidentHost_def coincidentObjects_def leftHand_def rightHand_def
        sampleInteractor_def)
  have "resultScale (onTriggerUpdate coincidentHost dualGrabbed) =
        resultScale (dualInteractorsTransform coincidentHost [0, Suc 0] dualGrabbed)"
    using fields(1-3) by (rule resultScale_onTriggerUpdate_dual)
  also have "\<dots> = resultScale (setScale coincidentHost
           (uniformScale (initialObjectScale dualGrabbed)
              (1 + (vec3_distance (Vec3 0 0 10) (Vec3 0 0 10)
                    - initialInteractorDistance dualGrabbed)
                   / initialInteractorDistance dualGrabbed))
           (useFilter dualGrabbed) dualGrabbed)"
    using points fields(2) fields(4) by (rule dual_resultScale)
  also have "\<dots> = Inl NonFinite"
    by (simp add: resultScale_setScale dualGrabbed_eval sampleManipulation_def
        canScale_def vec3_distance_along_x uniformScale_def clampUniformScale_def jsDivide_def)
  finally show ?thesis .
qed










end
